theory Spec2Isabelle
  imports Complex_Main
begin

section \<open>Shared Python conventions\<close>

text \<open>
  The exceptions the modelled code can raise: \<open>min\<close>/\<open>max\<close> of an empty iterable raise
  ValueError, a missing dictionary key raises KeyError, a division by \<open>len\<close> of an empty
  list raises ZeroDivisionError, and a policy may raise anything else (\<open>OtherError\<close>).
\<close>

datatype py_error = ValueError | KeyError | ZeroDivisionError | OtherError

text \<open>
  A Python \<open>dict\<close> from prices to volumes is an association list in insertion order;
  \<open>d.keys()\<close> is \<open>map fst d\<close> and \<open>d[k]\<close> is \<open>dict_get d k\<close>.
\<close>

fun py_min :: "int list \<Rightarrow> py_error + int" where
  "py_min [] = Inl ValueError"
| "py_min (x # xs) = Inr (fold min xs x)"

fun py_max :: "int list \<Rightarrow> py_error + int" where
  "py_max [] = Inl ValueError"
| "py_max (x # xs) = Inr (fold max xs x)"

definition dict_get :: "('k \<times> 'v) list \<Rightarrow> 'k \<Rightarrow> py_error + 'v" where
  "dict_get d k = (case map_of d k of None \<Rightarrow> Inl KeyError | Some v \<Rightarrow> Inr v)"

text \<open>\<open>min(xs, default=d)\<close> and \<open>max(xs, default=d)\<close>.\<close>

fun py_min_default :: "int list \<Rightarrow> int \<Rightarrow> int" where
  "py_min_default [] d = d"
| "py_min_default (x # xs) d = fold min xs x"

fun py_max_default :: "int list \<Rightarrow> int \<Rightarrow> int" where
  "py_max_default [] d = d"
| "py_max_default (x # xs) d = fold max xs x"

section \<open>Data model (datamodel.OrderDepth, datamodel.Order)\<close>

record OrderDepth =
  buy_orders :: "(int \<times> int) list"
  sell_orders :: "(int \<times> int) list"

record Order =
  symbol :: string
  price :: int
  quantity :: int

text \<open>The best prices of a book, as the sets they are the extrema of.\<close>

definition best_ask :: "OrderDepth \<Rightarrow> int" where
  "best_ask od = Min (fst ` set (sell_orders od))"

definition best_bid :: "OrderDepth \<Rightarrow> int" where
  "best_bid od = Max (fst ` set (buy_orders od))"

section \<open>The replay engine (backtest/backtester.py)\<close>

text \<open>One entry of \<open>Backtester.trade_history\<close>.\<close>

record Trade =
  t_timestamp :: int
  t_product :: string
  t_price :: int
  t_quantity :: int
  t_side :: string

text \<open>One row of \<open>Backtester.results\<close> (the per-product market columns are input data
  copied through and are left out).\<close>

record ResultRow =
  r_timestamp :: int
  r_pnl :: int
  r_resin_position :: int
  r_kelp_position :: int
  r_total_volume :: int

text \<open>The mutable fields of a \<open>Backtester\<close>.\<close>

record Backtester =
  current_positions :: "string \<rightharpoonup> int"
  pnl :: int
  trade_history :: "Trade list"
  results :: "ResultRow list"

text \<open>\<open>Backtester.__init__\<close>: the state a fresh engine starts from.\<close>

definition init_backtester :: Backtester where
  "init_backtester =
     \<lparr>current_positions = [''RAINFOREST_RESIN'' \<mapsto> 0, ''KELP'' \<mapsto> 0],
      pnl = 0, trade_history = [], results = []\<rparr>"

text \<open>\<open>Backtester._record_trade\<close>. The position update reads the key first, so an
  unknown product raises KeyError before anything is changed.\<close>

definition record_trade ::
  "Backtester \<Rightarrow> string \<Rightarrow> int \<Rightarrow> int \<Rightarrow> string \<Rightarrow> int \<Rightarrow> py_error + Backtester" where
  "record_trade s product prc qty side timestamp =
     (case current_positions s product of
        None \<Rightarrow> Inl KeyError
      | Some p \<Rightarrow>
          Inr (s\<lparr>current_positions :=
                    (current_positions s)(product \<mapsto> p + (if side = ''buy'' then qty else - qty)),
                 pnl := pnl s + qty * (prc * (if side = ''buy'' then - 1 else 1)),
                 trade_history := trade_history s @
                    [\<lparr>t_timestamp = timestamp, t_product = product, t_price = prc,
                      t_quantity = qty, t_side = side\<rparr>]\<rparr>))"

text \<open>\<open>Backtester._process_order\<close>.\<close>

definition process_order ::
  "Backtester \<Rightarrow> string \<Rightarrow> Order \<Rightarrow> OrderDepth \<Rightarrow> int \<Rightarrow> py_error + Backtester" where
  "process_order s product ord order_depth timestamp =
     (if quantity ord > 0 then
        (case py_min (map fst (sell_orders order_depth)) of
           Inl e \<Rightarrow> Inl e
         | Inr ba \<Rightarrow>
             if price ord \<ge> ba then
               (case dict_get (sell_orders order_depth) ba of
                  Inl e \<Rightarrow> Inl e
                | Inr vol \<Rightarrow>
                    record_trade s product ba (min (quantity ord) vol) ''buy'' timestamp)
             else Inr s)
      else
        (case py_max (map fst (buy_orders order_depth)) of
           Inl e \<Rightarrow> Inl e
         | Inr bb \<Rightarrow>
             if price ord \<le> bb then
               (case dict_get (buy_orders order_depth) bb of
                  Inl e \<Rightarrow> Inl e
                | Inr vol \<Rightarrow>
                    record_trade s product bb (min (abs (quantity ord)) vol) ''sell'' timestamp)
             else Inr s))"

text \<open>Step 4 of \<open>Backtester.run_backtest\<close>: the two nested loops over the trader's result.
  \<open>order_depths[product]\<close> is looked up once per order, as an argument of the call.\<close>

fun process_orders ::
  "Backtester \<Rightarrow> string \<Rightarrow> Order list \<Rightarrow> (string \<times> OrderDepth) list \<Rightarrow> int
     \<Rightarrow> py_error + Backtester" where
  "process_orders s product [] order_depths timestamp = Inr s"
| "process_orders s product (ord # rest) order_depths timestamp =
     (case dict_get order_depths product of
        Inl e \<Rightarrow> Inl e
      | Inr od \<Rightarrow>
          (case process_order s product ord od timestamp of
             Inl e \<Rightarrow> Inl e
           | Inr s' \<Rightarrow> process_orders s' product rest order_depths timestamp))"

fun process_result ::
  "Backtester \<Rightarrow> (string \<times> Order list) list \<Rightarrow> (string \<times> OrderDepth) list \<Rightarrow> int
     \<Rightarrow> py_error + Backtester" where
  "process_result s [] order_depths timestamp = Inr s"
| "process_result s ((product, orders) # rest) order_depths timestamp =
     (case process_orders s product orders order_depths timestamp of
        Inl e \<Rightarrow> Inl e
      | Inr s' \<Rightarrow> process_result s' rest order_depths timestamp)"

text \<open>
  One iteration of the loop of \<open>run_backtest\<close>. A tick is its timestamp and the books
  built from its rows. The trader (module \<open>trader\<close>, not part of the repository) is a
  parameter: from its own state, the timestamp, the books and a copy of the positions it
  returns the orders per product and its next state, or raises.
\<close>

type_synonym 'tr trader =
  "'tr \<Rightarrow> int \<Rightarrow> (string \<times> OrderDepth) list \<Rightarrow> (string \<rightharpoonup> int)
     \<Rightarrow> py_error + ((string \<times> Order list) list \<times> 'tr)"

definition run_tick ::
  "'tr trader \<Rightarrow> Backtester \<times> 'tr \<Rightarrow> int \<times> (string \<times> OrderDepth) list
     \<Rightarrow> py_error + (Backtester \<times> 'tr)" where
  "run_tick trader st tick =
     (case st of (s, tr) \<Rightarrow> case tick of (timestamp, order_depths) \<Rightarrow>
        (case trader tr timestamp order_depths (current_positions s) of
           Inl e \<Rightarrow> Inl e
         | Inr (result, tr') \<Rightarrow>
             (case process_result s result order_depths timestamp of
                Inl e \<Rightarrow> Inl e
              | Inr s' \<Rightarrow>
                  (case current_positions s' ''RAINFOREST_RESIN'' of
                     None \<Rightarrow> Inl KeyError
                   | Some rp \<Rightarrow>
                       (case current_positions s' ''KELP'' of
                          None \<Rightarrow> Inl KeyError
                        | Some kp \<Rightarrow>
                            Inr (s'\<lparr>results := results s' @
                                   [\<lparr>r_timestamp = timestamp, r_pnl = pnl s,
                                     r_resin_position = rp, r_kelp_position = kp,
                                     r_total_volume =
                                       sum_list (map t_quantity
                                         (drop (length (trade_history s') - 10)
                                            (trade_history s')))\<rparr>]\<rparr>, tr'))))))"

fun run_backtest ::
  "'tr trader \<Rightarrow> Backtester \<times> 'tr \<Rightarrow> (int \<times> (string \<times> OrderDepth) list) list
     \<Rightarrow> py_error + (Backtester \<times> 'tr)" where
  "run_backtest trader st [] = Inr st"
| "run_backtest trader st (tick # ticks) =
     (case run_tick trader st tick of
        Inl e \<Rightarrow> Inl e
      | Inr st' \<Rightarrow> run_backtest trader st' ticks)"

text \<open>A scripted stand-in for the trader: it replays a list of results, one per tick,
  and returns no orders once the script is exhausted.\<close>

definition scripted_trader :: "(string \<times> Order list) list list trader" where
  "scripted_trader tr timestamp order_depths position =
     (case tr of [] \<Rightarrow> Inr ([], []) | r # rest \<Rightarrow> Inr (r, rest))"

text \<open>The quantities a list of orders asks for on each side, and the orders a result
  holds for a product (none when the key is absent).\<close>

definition buy_total :: "Order list \<Rightarrow> int" where
  "buy_total os = sum_list (map quantity (filter (\<lambda>ord. quantity ord > 0) os))"

definition sell_total :: "Order list \<Rightarrow> int" where
  "sell_total os =
     sum_list (map (\<lambda>ord. \<bar>quantity ord\<bar>) (filter (\<lambda>ord. \<not> quantity ord > 0) os))"

definition orders_for :: "(string \<times> Order list) list \<Rightarrow> string \<Rightarrow> Order list" where
  "orders_for result product = (case map_of result product of None \<Rightarrow> [] | Some os \<Rightarrow> os)"

text \<open>A book as the engine builds it from the data file: every resting volume is
  non-negative on both sides.\<close>

definition volumes_nonneg :: "OrderDepth \<Rightarrow> bool" where
  "volumes_nonneg od =
     (list_all (\<lambda>kv. 0 \<le> snd kv) (buy_orders od) \<and>
      list_all (\<lambda>kv. 0 \<le> snd kv) (sell_orders od))"

section \<open>Fixed fair-value market making\<close>

text \<open>
  \<open>Trader.resin_strategy\<close> of tutorial_round/trade_v16.py, in its three blocks: take the
  best ask, take the best bid, post the passive orders. Each taking block returns the
  orders it appends and what it adds to \<open>buy_order_volume\<close> (\<open>sell_order_volume\<close>).
  In the books a strategy receives, ask volumes are negative.
\<close>

definition resin_take_buy ::
  "string \<Rightarrow> OrderDepth \<Rightarrow> int \<Rightarrow> int \<Rightarrow> int \<Rightarrow> int \<Rightarrow> py_error + (Order list \<times> int)" where
  "resin_take_buy product order_depth fair_value width position position_limit =
     (if sell_orders order_depth \<noteq> [] then
        (case py_min (map fst (sell_orders order_depth)) of
           Inl e \<Rightarrow> Inl e
         | Inr ba \<Rightarrow>
             if ba \<le> fair_value - width then
               (case dict_get (sell_orders order_depth) ba of
                  Inl e \<Rightarrow> Inl e
                | Inr vol \<Rightarrow>
                    (let qty = min (- vol) (position_limit - position)
                     in if qty > 0
                        then Inr ([\<lparr>symbol = product, price = ba, quantity = qty\<rparr>], qty)
                        else Inr ([], 0)))
             else Inr ([], 0))
      else Inr ([], 0))"

definition resin_take_sell ::
  "string \<Rightarrow> OrderDepth \<Rightarrow> int \<Rightarrow> int \<Rightarrow> int \<Rightarrow> int \<Rightarrow> py_error + (Order list \<times> int)" where
  "resin_take_sell product order_depth fair_value width position position_limit =
     (if buy_orders order_depth \<noteq> [] then
        (case py_max (map fst (buy_orders order_depth)) of
           Inl e \<Rightarrow> Inl e
         | Inr bb \<Rightarrow>
             if bb \<ge> fair_value + width then
               (case dict_get (buy_orders order_depth) bb of
                  Inl e \<Rightarrow> Inl e
                | Inr vol \<Rightarrow>
                    (let qty = min vol (position_limit + position)
                     in if qty > 0
                        then Inr ([\<lparr>symbol = product, price = bb, quantity = - qty\<rparr>], qty)
                        else Inr ([], 0)))
             else Inr ([], 0))
      else Inr ([], 0))"

definition resin_strategy ::
  "string \<Rightarrow> OrderDepth \<Rightarrow> int \<Rightarrow> int \<Rightarrow> int \<Rightarrow> int \<Rightarrow> py_error + Order list" where
  "resin_strategy product order_depth fair_value width position position_limit =
     (case resin_take_buy product order_depth fair_value width position position_limit of
        Inl e \<Rightarrow> Inl e
      | Inr (buys, buy_order_volume) \<Rightarrow>
     (case resin_take_sell product order_depth fair_value width position position_limit of
        Inl e \<Rightarrow> Inl e
      | Inr (sells, sell_order_volume) \<Rightarrow>
          (let baaf = py_min_default
                 (filter (\<lambda>p. p > fair_value + width) (map fst (sell_orders order_depth)))
                 (fair_value + width + 1);
               bbbf = py_max_default
                 (filter (\<lambda>p. p < fair_value - width) (map fst (buy_orders order_depth)))
                 (fair_value - width - 1);
               buy_quantity = position_limit - (position + buy_order_volume);
               sell_quantity = position_limit + (position - sell_order_volume)
           in Inr (buys @ sells @
                (if buy_quantity > 0
                 then [\<lparr>symbol = product, price = bbbf + 1, quantity = buy_quantity\<rparr>] else []) @
                (if sell_quantity > 0
                 then [\<lparr>symbol = product, price = baaf - 1, quantity = - sell_quantity\<rparr>] else [])))))"

text \<open>
  \<open>Trader.fixed_resin_strategy\<close> of tutorial_round/trade_v17_vwap.py. The counter
  \<open>self.resin_tick\<close> is passed in and returned; it is incremented before anything can raise.
\<close>

definition fixed_resin_strategy ::
  "int \<Rightarrow> string \<Rightarrow> OrderDepth \<Rightarrow> int \<Rightarrow> int \<Rightarrow> int \<Rightarrow> int \<Rightarrow> int \<times> (py_error + Order list)" where
  "fixed_resin_strategy resin_tick product order_depth position position_limit fair_value base_width =
     (let tick' = resin_tick + 1;
          width = base_width + tick' div 1500
      in (tick',
          (case py_min (map fst (sell_orders order_depth)) of
             Inl e \<Rightarrow> Inl e
           | Inr ba \<Rightarrow>
          (case py_max (map fst (buy_orders order_depth)) of
             Inl e \<Rightarrow> Inl e
           | Inr bb \<Rightarrow>
          (case dict_get (sell_orders order_depth) ba of
             Inl e \<Rightarrow> Inl e
           | Inr ask_vol \<Rightarrow>
          (case dict_get (buy_orders order_depth) bb of
             Inl e \<Rightarrow> Inl e
           | Inr bid_vol \<Rightarrow>
               (let buy_volume = - ask_vol;
                    sell_volume = bid_vol;
                    take_buy =
                      (if ba \<le> fair_value - width \<and> position < position_limit then
                         (let qty = min (position_limit - position) buy_volume
                          in if qty > 0
                             then [\<lparr>symbol = product, price = ba, quantity = qty\<rparr>] else [])
                       else []);
                    take_sell =
                      (if bb \<ge> fair_value + width \<and> position > - position_limit then
                         (let qty = min (position_limit + position) sell_volume
                          in if qty > 0
                             then [\<lparr>symbol = product, price = bb, quantity = - qty\<rparr>] else [])
                       else []);
                    bbbf = py_max_default
                      (filter (\<lambda>p. p < fair_value - width) (map fst (buy_orders order_depth)))
                      (fair_value - width - 1);
                    baaf = py_min_default
                      (filter (\<lambda>p. p > fair_value + width) (map fst (sell_orders order_depth)))
                      (fair_value + width + 1);
                    post_buy_qty = position_limit - position;
                    post_sell_qty = position_limit + position
                in Inr (take_buy @ take_sell @
                     (if post_buy_qty > 0
                      then [\<lparr>symbol = product, price = bbbf + 1, quantity = post_buy_qty\<rparr>]
                      else []) @
                     (if post_sell_qty > 0
                      then [\<lparr>symbol = product, price = baaf - 1, quantity = - post_sell_qty\<rparr>]
                      else [])))))))))"

section \<open>The orchestrator (round_1/round_v_5.py, round_2/round2_v_1.py)\<close>

text \<open>\<open>d[k] = v\<close> and \<open>d.update(other)\<close> on a dictionary kept in insertion order.\<close>

fun dict_set :: "('k \<times> 'v) list \<Rightarrow> 'k \<Rightarrow> 'v \<Rightarrow> ('k \<times> 'v) list" where
  "dict_set [] k v = [(k, v)]"
| "dict_set ((k', v') # d) k v = (if k' = k then (k, v) # d else (k', v') # dict_set d k v)"

fun dict_update :: "('k \<times> 'v) list \<Rightarrow> ('k \<times> 'v) list \<Rightarrow> ('k \<times> 'v) list" where
  "dict_update d [] = d"
| "dict_update d ((k, v) # rest) = dict_update (dict_set d k v) rest"

text \<open>
  A policy (\<open>trade_resin\<close>, \<open>trade_kelp\<close>, \<open>trade_squid\<close>) reads the tick and the rolling
  state \<open>self.historical_data\<close>; it returns its orders or raises, and in both cases leaves
  the rolling state as it has mutated it so far. \<open>trade_picnic_baskets\<close> returns orders
  for several products at once.
\<close>

type_synonym 'h policy = "'h \<Rightarrow> (py_error + Order list) \<times> 'h"

type_synonym 'h multi_policy = "'h \<Rightarrow> (py_error + (string \<times> Order list) list) \<times> 'h"

type_synonym 'h run_state = "(string \<times> Order list) list \<times> 'h"

text \<open>One guarded statement \<open>if P in state.order_depths: result[P] = policy(state)\<close> of
  the \<open>try\<close> block: \<open>Inl\<close> carries the exception to the handler together with the result
  and rolling state at that point.\<close>

definition run_policy ::
  "bool \<Rightarrow> string \<Rightarrow> 'h policy \<Rightarrow> 'h run_state \<Rightarrow> (py_error \<times> 'h run_state) + 'h run_state" where
  "run_policy present product policy st =
     (case st of (result, h) \<Rightarrow>
        if present then
          (case policy h of
             (Inl e, h') \<Rightarrow> Inl (e, result, h')
           | (Inr orders, h') \<Rightarrow> Inr (dict_set result product orders, h'))
        else Inr (result, h))"

definition run_multi_policy ::
  "'h multi_policy \<Rightarrow> 'h run_state \<Rightarrow> (py_error \<times> 'h run_state) + 'h run_state" where
  "run_multi_policy policy st =
     (case st of (result, h) \<Rightarrow>
        (case policy h of
           (Inl e, h') \<Rightarrow> Inl (e, result, h')
         | (Inr new_orders, h') \<Rightarrow> Inr (dict_update result new_orders, h')))"

text \<open>
  \<open>Trader.run\<close> of round_1/round_v_5.py: one \<open>try\<close> block around all products, whose
  handler only logs. The model returns the result, the rolling state and the logged
  errors; decoding and encoding of \<open>traderData\<close> are left out.
\<close>

definition run_round_v_5 ::
  "(string \<Rightarrow> bool) \<Rightarrow> 'h policy \<Rightarrow> 'h policy \<Rightarrow> 'h policy \<Rightarrow> 'h
     \<Rightarrow> (string \<times> Order list) list \<times> 'h \<times> py_error list" where
  "run_round_v_5 present trade_resin trade_kelp trade_squid historical_data =
     (case run_policy (present ''RAINFOREST_RESIN'') ''RAINFOREST_RESIN'' trade_resin
             ([], historical_data) of
        Inl (e, result, h) \<Rightarrow> (result, h, [e])
      | Inr st1 \<Rightarrow>
     (case run_policy (present ''KELP'') ''KELP'' trade_kelp st1 of
        Inl (e, result, h) \<Rightarrow> (result, h, [e])
      | Inr st2 \<Rightarrow>
     (case run_policy (present ''SQUID_INK'') ''SQUID_INK'' trade_squid st2 of
        Inl (e, result, h) \<Rightarrow> (result, h, [e])
      | Inr (result, h) \<Rightarrow> (result, h, []))))"

text \<open>\<open>Trader.run\<close> of round_2/round2_v_1.py: the same block with the basket policy last.\<close>

definition run_round2_v_1 ::
  "(string \<Rightarrow> bool) \<Rightarrow> 'h policy \<Rightarrow> 'h policy \<Rightarrow> 'h policy \<Rightarrow> 'h multi_policy \<Rightarrow> 'h
     \<Rightarrow> (string \<times> Order list) list \<times> 'h \<times> py_error list" where
  "run_round2_v_1 present trade_resin trade_kelp trade_squid trade_picnic_baskets historical_data =
     (case run_policy (present ''RAINFOREST_RESIN'') ''RAINFOREST_RESIN'' trade_resin
             ([], historical_data) of
        Inl (e, result, h) \<Rightarrow> (result, h, [e])
      | Inr st1 \<Rightarrow>
     (case run_policy (present ''KELP'') ''KELP'' trade_kelp st1 of
        Inl (e, result, h) \<Rightarrow> (result, h, [e])
      | Inr st2 \<Rightarrow>
     (case run_policy (present ''SQUID_INK'') ''SQUID_INK'' trade_squid st2 of
        Inl (e, result, h) \<Rightarrow> (result, h, [e])
      | Inr st3 \<Rightarrow>
     (case run_multi_policy trade_picnic_baskets st3 of
        Inl (e, result, h) \<Rightarrow> (result, h, [e])
      | Inr (result, h) \<Rightarrow> (result, h, [])))))"

text \<open>Policies to exercise the orchestrator with: one that raises at once, one that
  posts a single order and counts its call in the rolling state, a basket policy that
  raises at once; and a tick in which every product has a book.\<close>

definition raising_policy :: "nat policy" where
  "raising_policy h = (Inl OtherError, h)"

definition quoting_policy :: "string \<Rightarrow> nat policy" where
  "quoting_policy product h = (Inr [\<lparr>symbol = product, price = 100, quantity = 1\<rparr>], Suc h)"

definition raising_baskets :: "nat multi_policy" where
  "raising_baskets h = (Inl OtherError, h)"

definition all_present :: "string \<Rightarrow> bool" where
  "all_present product = True"

section \<open>Rolling windows\<close>

text \<open>
  The window update of \<open>Trader.pendulum_strategy\<close> (round_1/round_v_7.py) and of the spread
  history in round_2/round2_v_1.py: append, then drop the oldest entry when the window
  is over its capacity.
\<close>

definition window_push :: "nat \<Rightarrow> 'a list \<Rightarrow> 'a \<Rightarrow> 'a list" where
  "window_push maxlen history x =
     (let h = history @ [x] in if length h > maxlen then tl h else h)"

text \<open>The update of \<open>self.kelp_vwap\<close> in \<open>Trader.kelp_strategy\<close>
  (tutorial_round/trade_v16.py): an empty window is first seeded with the sample.\<close>

definition kelp_vwap_push :: "nat \<Rightarrow> 'a list \<Rightarrow> 'a \<Rightarrow> 'a list" where
  "kelp_vwap_push timespan kelp_vwap x =
     (let h0 = (if length kelp_vwap = 0 then kelp_vwap @ [x] else kelp_vwap);
          h = h0 @ [x]
      in if length h > timespan then tl h else h)"

section \<open>Z-scores\<close>

text \<open>
  Prices and spreads are Python floats; they are modelled as reals. A \<open>numpy.float64\<close>
  can also be nan or infinite: numpy's mean and standard deviation of an empty list are
  nan, and its division by zero gives nan or an infinity with a warning, not an exception.
\<close>

datatype py_float = Num real | NaN | PosInf | NegInf

definition np_mean :: "real list \<Rightarrow> py_float" where
  "np_mean xs = (if xs = [] then NaN else Num (sum_list xs / real (length xs)))"

definition np_std :: "real list \<Rightarrow> py_float" where
  "np_std xs =
     (if xs = [] then NaN
      else Num (sqrt (sum_list (map (\<lambda>x. (x - sum_list xs / real (length xs))\<^sup>2) xs)
                        / real (length xs))))"

definition np_true_divide :: "real \<Rightarrow> real \<Rightarrow> py_float" where
  "np_true_divide a b =
     (if b \<noteq> 0 then Num (a / b)
      else if a = 0 then NaN
      else if a > 0 then PosInf else NegInf)"

text \<open>The spread history update and z-score of \<open>Trader.trade_picnic_baskets\<close>
  (round_2/round2_v_1.py); \<open>None\<close> while the window is not full.\<close>

definition spread_zscore :: "nat \<Rightarrow> real list \<Rightarrow> real \<Rightarrow> real list \<times> py_float option" where
  "spread_zscore spread_window spread_history spread =
     (let h = window_push spread_window spread_history spread
      in (h,
          if length h \<ge> spread_window then
            Some (case (np_mean h, np_std h) of
                    (Num spread_mean, Num spread_std) \<Rightarrow>
                       np_true_divide (spread - spread_mean) spread_std
                  | _ \<Rightarrow> NaN)
          else None))"

text \<open>\<open>sum(history) / len(history)\<close>, \<open>Trader.std_dev\<close> and the z-score of the component
  loop of \<open>Trader.run\<close> (round_2/round2_v_2.py); \<open>None\<close> while the history is shorter
  than the window.\<close>

definition py_mean :: "real list \<Rightarrow> py_error + real" where
  "py_mean xs = (if xs = [] then Inl ZeroDivisionError else Inr (sum_list xs / real (length xs)))"

definition std_dev :: "real list \<Rightarrow> real \<Rightarrow> py_error + real" where
  "std_dev prices mean =
     (if prices = [] then Inl ZeroDivisionError
      else Inr (sqrt (sum_list (map (\<lambda>p. (p - mean)\<^sup>2) prices) / real (length prices))))"

definition component_zscore :: "nat \<Rightarrow> real list \<Rightarrow> real \<Rightarrow> (py_error + real) option" where
  "component_zscore window history mid =
     (if length history \<ge> window then
        Some (case py_mean history of
                Inl e \<Rightarrow> Inl e
              | Inr mean \<Rightarrow>
                  (case std_dev history mean of
                     Inl e \<Rightarrow> Inl e
                   | Inr std \<Rightarrow> Inr (if std > 0 then (mid - mean) / std else 0)))
      else None)"

section \<open>Mid price (round_2/round2_v_3.py)\<close>

text \<open>
  \<open>Trader.get_mid_price\<close>. The sentinels \<open>float('inf')\<close> and \<open>float('-inf')\<close> stand for an
  empty side; prices are integers, so a side equals its sentinel exactly when it is empty,
  and the sentinel is modelled as \<open>None\<close>.
\<close>

definition get_mid_price :: "OrderDepth \<Rightarrow> real" where
  "get_mid_price order_depth =
     (let ask = (case map fst (sell_orders order_depth) of
                        [] \<Rightarrow> None | k # ks \<Rightarrow> Some (fold min ks k));
          bid = (case map fst (buy_orders order_depth) of
                        [] \<Rightarrow> None | k # ks \<Rightarrow> Some (fold max ks k))
      in case (ask, bid) of
           (None, None) \<Rightarrow> 0
         | (None, Some b) \<Rightarrow> of_int b
         | (Some a, None) \<Rightarrow> of_int a
         | (Some a, Some b) \<Rightarrow> (of_int b + of_int a) / 2)"

section \<open>Facts about the Python helpers\<close>

lemma fold_min_Min: "fold min xs (x::int) = Min (set (x # xs))"
  by (rule Min.set_eq_fold [symmetric])

lemma fold_max_Max: "fold max xs (x::int) = Max (set (x # xs))"
  by (rule Max.set_eq_fold [symmetric])

lemma py_min_keys:
  assumes "d \<noteq> []"
  shows "py_min (map fst d) = Inr (Min (fst ` set d))"
proof (cases d)
  case Nil
  with assms show ?thesis by simp
next
  case (Cons a rest)
  have "fst ` set d = set (fst a # map fst rest)"
    using Cons by simp
  then show ?thesis
    using Cons by (simp only: list.map py_min.simps fold_min_Min)
qed

lemma py_max_keys:
  assumes "d \<noteq> []"
  shows "py_max (map fst d) = Inr (Max (fst ` set d))"
proof (cases d)
  case Nil
  with assms show ?thesis by simp
next
  case (Cons a rest)
  have "fst ` set d = set (fst a # map fst rest)"
    using Cons by simp
  then show ?thesis
    using Cons by (simp only: list.map py_max.simps fold_max_Max)
qed

lemma Min_key_present:
  "d \<noteq> [] \<Longrightarrow> \<exists>v. map_of d (Min (fst ` set d)) = Some v"
proof -
  assume "d \<noteq> []"
  then have "Min (fst ` set d) \<in> fst ` set d"
    by (intro Min_in) auto
  then show ?thesis
    by (metis domD dom_map_of_conv_image_fst)
qed

lemma Max_key_present:
  "d \<noteq> [] \<Longrightarrow> \<exists>v. map_of d (Max (fst ` set d)) = Some v"
proof -
  assume "d \<noteq> []"
  then have "Max (fst ` set d) \<in> fst ` set d"
    by (intro Max_in) auto
  then show ?thesis
    by (metis domD dom_map_of_conv_image_fst)
qed

section \<open>The fill rule of the replay engine\<close>

lemma process_order_buy:
  assumes pos: "current_positions s product = Some p"
    and q: "quantity ord > 0" and ne: "sell_orders od \<noteq> []"
  shows "\<exists>vol. map_of (sell_orders od) (best_ask od) = Some vol \<and>
           process_order s product ord od ts =
             Inr (if price ord \<ge> best_ask od then
                    s\<lparr>current_positions :=
                         (current_positions s)(product \<mapsto> p + min (quantity ord) vol),
                      pnl := pnl s - best_ask od * min (quantity ord) vol,
                      trade_history := trade_history s @
                        [\<lparr>t_timestamp = ts, t_product = product, t_price = best_ask od,
                          t_quantity = min (quantity ord) vol, t_side = ''buy''\<rparr>]\<rparr>
                  else s)"
proof -
  obtain vol where v: "map_of (sell_orders od) (best_ask od) = Some vol"
    using Min_key_present [OF ne] by (auto simp: best_ask_def)
  have m: "py_min (map fst (sell_orders od)) = Inr (best_ask od)"
    using py_min_keys [OF ne] by (simp add: best_ask_def)
  show ?thesis
    using v m pos q by (simp add: process_order_def dict_get_def record_trade_def mult.commute)
qed

lemma process_order_sell:
  assumes pos: "current_positions s product = Some p"
    and q: "quantity ord < 0" and ne: "buy_orders od \<noteq> []"
  shows "\<exists>vol. map_of (buy_orders od) (best_bid od) = Some vol \<and>
           process_order s product ord od ts =
             Inr (if price ord \<le> best_bid od then
                    s\<lparr>current_positions :=
                         (current_positions s)(product \<mapsto> p - min \<bar>quantity ord\<bar> vol),
                      pnl := pnl s + best_bid od * min \<bar>quantity ord\<bar> vol,
                      trade_history := trade_history s @
                        [\<lparr>t_timestamp = ts, t_product = product, t_price = best_bid od,
                          t_quantity = min \<bar>quantity ord\<bar> vol, t_side = ''sell''\<rparr>]\<rparr>
                  else s)"
proof -
  obtain vol where v: "map_of (buy_orders od) (best_bid od) = Some vol"
    using Max_key_present [OF ne] by (auto simp: best_bid_def)
  have m: "py_max (map fst (buy_orders od)) = Inr (best_bid od)"
    using py_max_keys [OF ne] by (simp add: best_bid_def)
  show ?thesis
    using v m pos q by (simp add: process_order_def dict_get_def record_trade_def mult.commute)
qed

text \<open>
  C1, as stated for every order, fails: the engine records fills only for the products
  in its position table. A buy of 3 SQUID_INK at 2000 against a best ask of 1998 crosses
  the book, yet it produces no fill: recording it raises KeyError.
\<close>

theorem process_order_untracked_counterexample:
  "process_order init_backtester ''SQUID_INK''
       \<lparr>symbol = ''SQUID_INK'', price = 2000, quantity = 3\<rparr>
       \<lparr>buy_orders = [(1995, 20)], sell_orders = [(1998, 7)]\<rparr> 0 = Inl KeyError \<and>
   best_ask \<lparr>buy_orders = [(1995, 20)], sell_orders = [(1998, 7)]\<rparr> = 1998 \<and>
   (1998::int) \<le> 2000"
  by (simp add: process_order_def dict_get_def record_trade_def init_backtester_def
        best_ask_def)

text \<open>
  C1, amended. For an order on a product the engine tracks, against a book whose opposite
  side is not empty: a buy order (quantity above 0) fills exactly when its price is at
  least the best ask; the fill is at the best ask, for the smaller of the order quantity
  and the volume resting at the best ask, it raises the position by that quantity and
  lowers the cash by price times quantity. A sell order (quantity below 0) fills exactly
  when its price is at most the best bid, at the best bid, for the smaller of the absolute
  order quantity and the volume resting at the best bid; it lowers the position and raises
  the cash by price times quantity. An order that does not cross leaves the engine
  unchanged. For the book with bid 99 (volume 10) and ask 101 (volume 5), a buy of 8 at
  101 fills 5 at 101.
\<close>

theorem process_order_fill_rule:
  assumes "current_positions s product = Some p"
  shows
    "(quantity ord > 0 \<and> sell_orders od \<noteq> [] \<longrightarrow>
        (\<exists>vol. map_of (sell_orders od) (best_ask od) = Some vol \<and>
           process_order s product ord od ts =
             Inr (if price ord \<ge> best_ask od then
                    s\<lparr>current_positions :=
                         (current_positions s)(product \<mapsto> p + min (quantity ord) vol),
                      pnl := pnl s - best_ask od * min (quantity ord) vol,
                      trade_history := trade_history s @
                        [\<lparr>t_timestamp = ts, t_product = product, t_price = best_ask od,
                          t_quantity = min (quantity ord) vol, t_side = ''buy''\<rparr>]\<rparr>
                  else s))) \<and>
     (quantity ord < 0 \<and> buy_orders od \<noteq> [] \<longrightarrow>
        (\<exists>vol. map_of (buy_orders od) (best_bid od) = Some vol \<and>
           process_order s product ord od ts =
             Inr (if price ord \<le> best_bid od then
                    s\<lparr>current_positions :=
                         (current_positions s)(product \<mapsto> p - min \<bar>quantity ord\<bar> vol),
                      pnl := pnl s + best_bid od * min \<bar>quantity ord\<bar> vol,
                      trade_history := trade_history s @
                        [\<lparr>t_timestamp = ts, t_product = product, t_price = best_bid od,
                          t_quantity = min \<bar>quantity ord\<bar> vol, t_side = ''sell''\<rparr>]\<rparr>
                  else s))) \<and>
     process_order init_backtester ''KELP'' \<lparr>symbol = ''KELP'', price = 101, quantity = 8\<rparr>
         \<lparr>buy_orders = [(99, 10)], sell_orders = [(101, 5)]\<rparr> 0 =
       Inr \<lparr>current_positions = [''RAINFOREST_RESIN'' \<mapsto> 0, ''KELP'' \<mapsto> 5],
            pnl = - 505,
            trade_history = [\<lparr>t_timestamp = 0, t_product = ''KELP'', t_price = 101,
                               t_quantity = 5, t_side = ''buy''\<rparr>],
            results = []\<rparr>"
proof -
  have ex: "process_order init_backtester ''KELP'' \<lparr>symbol = ''KELP'', price = 101, quantity = 8\<rparr>
         \<lparr>buy_orders = [(99, 10)], sell_orders = [(101, 5)]\<rparr> 0 =
       Inr \<lparr>current_positions = [''RAINFOREST_RESIN'' \<mapsto> 0, ''KELP'' \<mapsto> 5],
            pnl = - 505,
            trade_history = [\<lparr>t_timestamp = 0, t_product = ''KELP'', t_price = 101,
                               t_quantity = 5, t_side = ''buy''\<rparr>],
            results = []\<rparr>"
    by (simp add: process_order_def dict_get_def record_trade_def init_backtester_def)
  show ?thesis
    using process_order_buy [OF assms, of ord od ts] process_order_sell [OF assms, of ord od ts] ex
    by blast
qed

theorem process_order_fill_rule_witness:
  "current_positions init_backtester ''KELP'' = Some 0 \<and>
   process_order init_backtester ''KELP'' \<lparr>symbol = ''KELP'', price = 101, quantity = 8\<rparr>
       \<lparr>buy_orders = [(99, 10)], sell_orders = [(101, 5)]\<rparr> 7 =
     Inr (init_backtester
           \<lparr>current_positions := (current_positions init_backtester)(''KELP'' \<mapsto> 5),
             pnl := - 505,
             trade_history := [\<lparr>t_timestamp = 7, t_product = ''KELP'', t_price = 101,
                                 t_quantity = 5, t_side = ''buy''\<rparr>]\<rparr>) \<and>
   process_order init_backtester ''KELP'' \<lparr>symbol = ''KELP'', price = 99, quantity = - 12\<rparr>
       \<lparr>buy_orders = [(99, 10)], sell_orders = [(101, 5)]\<rparr> 7 =
     Inr (init_backtester
           \<lparr>current_positions := (current_positions init_backtester)(''KELP'' \<mapsto> - 10),
             pnl := 990,
             trade_history := [\<lparr>t_timestamp = 7, t_product = ''KELP'', t_price = 99,
                                 t_quantity = 10, t_side = ''sell''\<rparr>]\<rparr>)"
proof -
  have h: "current_positions init_backtester ''KELP'' = Some 0"
    by (simp add: init_backtester_def)
  show ?thesis
    using h
      process_order_fill_rule [OF h, of "\<lparr>symbol = ''KELP'', price = 101, quantity = 8\<rparr>"
        "\<lparr>buy_orders = [(99, 10)], sell_orders = [(101, 5)]\<rparr>" 7]
      process_order_fill_rule [OF h, of "\<lparr>symbol = ''KELP'', price = 99, quantity = - 12\<rparr>"
        "\<lparr>buy_orders = [(99, 10)], sell_orders = [(101, 5)]\<rparr>" 7]
    by (simp add: best_ask_def best_bid_def init_backtester_def)
qed

section \<open>Exceptions of the matching step\<close>

lemma process_order_empty_asks:
  "quantity ord > 0 \<Longrightarrow> sell_orders od = [] \<Longrightarrow> process_order s product ord od ts = Inl ValueError"
  by (simp add: process_order_def)

lemma process_order_empty_bids:
  "\<not> quantity ord > 0 \<Longrightarrow> buy_orders od = [] \<Longrightarrow> process_order s product ord od ts = Inl ValueError"
  by (simp add: process_order_def)

text \<open>
  C4. The matching step is not total. A buy order against a book without asks, and a
  sell order against a book without bids, raise ValueError, and nothing in the replay
  loop catches it: the two-tick run below, whose first tick has a bid-only KELP book and
  a buy order for KELP, ends in that ValueError instead of a table of rows.
\<close>

theorem process_order_empty_side_raises:
  "process_order init_backtester ''KELP'' \<lparr>symbol = ''KELP'', price = 101, quantity = 8\<rparr>
       \<lparr>buy_orders = [(99, 10)], sell_orders = []\<rparr> 0 = Inl ValueError \<and>
   process_order init_backtester ''KELP'' \<lparr>symbol = ''KELP'', price = 99, quantity = - 8\<rparr>
       \<lparr>buy_orders = [], sell_orders = [(101, 5)]\<rparr> 0 = Inl ValueError \<and>
   run_backtest scripted_trader
       (init_backtester, [[(''KELP'', [\<lparr>symbol = ''KELP'', price = 101, quantity = 8\<rparr>])], []])
       [(0, [(''KELP'', \<lparr>buy_orders = [(99, 10)], sell_orders = []\<rparr>)]),
        (100, [(''KELP'', \<lparr>buy_orders = [(99, 10)], sell_orders = [(101, 5)]\<rparr>)])] =
     Inl ValueError"
proof -
  have a1: "process_order init_backtester ''KELP'' \<lparr>symbol = ''KELP'', price = 101, quantity = 8\<rparr>
       \<lparr>buy_orders = [(99, 10)], sell_orders = []\<rparr> 0 = Inl ValueError"
    by (simp add: process_order_def)
  have a2: "process_order init_backtester ''KELP'' \<lparr>symbol = ''KELP'', price = 99, quantity = - 8\<rparr>
       \<lparr>buy_orders = [], sell_orders = [(101, 5)]\<rparr> 0 = Inl ValueError"
    by (simp add: process_order_def)
  have a3: "run_tick scripted_trader
       (init_backtester, [[(''KELP'', [\<lparr>symbol = ''KELP'', price = 101, quantity = 8\<rparr>])], []])
       (0, [(''KELP'', \<lparr>buy_orders = [(99, 10)], sell_orders = []\<rparr>)]) = Inl ValueError"
    by (simp add: run_tick_def scripted_trader_def dict_get_def a1)
  show ?thesis
    using a1 a2 a3 by simp
qed

section \<open>The position table\<close>

lemma record_trade_position:
  assumes "record_trade s product prc qty side ts = Inr s'"
  shows "\<exists>p. current_positions s product = Some p \<and>
           current_positions s' =
             (current_positions s)(product \<mapsto> p + (if side = ''buy'' then qty else - qty))"
  using assms by (auto simp: record_trade_def split: option.splits)

lemma process_order_cases:
  assumes "process_order s product ord od ts = Inr s'"
  shows "s' = s \<or> (\<exists>prc qty side. record_trade s product prc qty side ts = Inr s')"
  using assms by (auto simp: process_order_def split: if_splits sum.splits)

lemma record_trade_dom:
  assumes "record_trade s product prc qty side ts = Inr s'"
  shows "dom (current_positions s') = dom (current_positions s)"
proof -
  from record_trade_position [OF assms] obtain p where
    "current_positions s product = Some p"
    and "current_positions s' =
      (current_positions s)(product \<mapsto> p + (if side = ''buy'' then qty else - qty))"
    by blast
  then show ?thesis by (simp add: insert_absorb domI)
qed

lemma process_order_dom:
  assumes "process_order s product ord od ts = Inr s'"
  shows "dom (current_positions s') = dom (current_positions s)"
  using process_order_cases [OF assms] record_trade_dom by blast

lemma process_orders_dom:
  "process_orders s product os order_depths ts = Inr s' \<Longrightarrow>
     dom (current_positions s') = dom (current_positions s)"
proof (induction os arbitrary: s)
  case Nil
  then show ?case by simp
next
  case (Cons ord rest)
  from Cons.prems obtain od s1 where
    s1: "process_order s product ord od ts = Inr s1"
    and rest: "process_orders s1 product rest order_depths ts = Inr s'"
    by (auto split: sum.splits)
  from Cons.IH [OF rest] process_order_dom [OF s1] show ?case by simp
qed

lemma process_result_dom:
  "process_result s result order_depths ts = Inr s' \<Longrightarrow>
     dom (current_positions s') = dom (current_positions s)"
proof (induction result arbitrary: s)
  case Nil
  then show ?case by simp
next
  case (Cons entry rest)
  obtain q os where entry: "entry = (q, os)" by (cases entry)
  from Cons.prems entry obtain s1 where
    s1: "process_orders s q os order_depths ts = Inr s1"
    and r: "process_result s1 rest order_depths ts = Inr s'"
    by (auto split: sum.splits)
  from Cons.IH [OF r] process_orders_dom [OF s1] show ?case by simp
qed

lemma run_tick_dom:
  assumes "run_tick trader (s, tr) tick = Inr (s', tr')"
  shows "dom (current_positions s') = dom (current_positions s)"
proof -
  obtain timestamp order_depths where tick: "tick = (timestamp, order_depths)"
    by (cases tick)
  from assms tick obtain result s1 where
    "process_result s result order_depths timestamp = Inr s1"
    and "current_positions s' = current_positions s1"
    by (auto simp: run_tick_def split: sum.splits option.splits)
  then show ?thesis
    using process_result_dom by metis
qed

lemma run_backtest_dom:
  "run_backtest trader (s, tr) ticks = Inr (s', tr') \<Longrightarrow>
     dom (current_positions s') = dom (current_positions s)"
proof (induction ticks arbitrary: s tr)
  case Nil
  then show ?case by simp
next
  case (Cons tick rest)
  from Cons.prems obtain s1 tr1 where
    t: "run_tick trader (s, tr) tick = Inr (s1, tr1)"
    and r: "run_backtest trader (s1, tr1) rest = Inr (s', tr')"
    by (auto split: sum.splits)
  from Cons.IH [OF r] run_tick_dom [OF t] show ?case by simp
qed

lemma init_backtester_dom:
  "dom (current_positions init_backtester) = {''RAINFOREST_RESIN'', ''KELP''}"
  by (auto simp: init_backtester_def)

lemma process_order_untracked:
  assumes "current_positions s product = None"
    and "(quantity ord > 0 \<and> sell_orders od \<noteq> [] \<and> price ord \<ge> best_ask od) \<or>
         (quantity ord \<le> 0 \<and> buy_orders od \<noteq> [] \<and> price ord \<le> best_bid od)"
  shows "process_order s product ord od ts = Inl KeyError"
proof -
  { assume c: "quantity ord > 0" "sell_orders od \<noteq> []" "price ord \<ge> best_ask od"
    obtain vol where v: "map_of (sell_orders od) (best_ask od) = Some vol"
      using Min_key_present [OF c(2)] by (auto simp: best_ask_def)
    have m: "py_min (map fst (sell_orders od)) = Inr (best_ask od)"
      using py_min_keys [OF c(2)] by (simp add: best_ask_def)
    have ?thesis
      using c(1,3) assms(1) v m
      by (simp add: process_order_def dict_get_def record_trade_def) }
  moreover
  { assume c: "quantity ord \<le> 0" "buy_orders od \<noteq> []" "price ord \<le> best_bid od"
    obtain vol where v: "map_of (buy_orders od) (best_bid od) = Some vol"
      using Max_key_present [OF c(2)] by (auto simp: best_bid_def)
    have m: "py_max (map fst (buy_orders od)) = Inr (best_bid od)"
      using py_max_keys [OF c(2)] by (simp add: best_bid_def)
    have ?thesis
      using c(1,3) assms(1) v m
      by (simp add: process_order_def dict_get_def record_trade_def) }
  ultimately show ?thesis using assms(2) by blast
qed

text \<open>
  C10. A fresh engine tracks exactly the two products RAINFOREST_RESIN and KELP, and no
  replay run changes that set. In any state a run from a fresh engine reaches, an order
  on any other product that crosses the book (a buy at or above the best ask, or a sell
  at or below the best bid) raises KeyError when its fill is recorded.
\<close>

theorem untracked_product_raises:
  assumes "run_backtest trader (init_backtester, tr0) ticks = Inr (s, tr)"
    and "product \<noteq> ''RAINFOREST_RESIN''" and "product \<noteq> ''KELP''"
    and "(quantity ord > 0 \<and> sell_orders od \<noteq> [] \<and> price ord \<ge> best_ask od) \<or>
         (quantity ord \<le> 0 \<and> buy_orders od \<noteq> [] \<and> price ord \<le> best_bid od)"
  shows "dom (current_positions init_backtester) = {''RAINFOREST_RESIN'', ''KELP''} \<and>
         dom (current_positions s) = {''RAINFOREST_RESIN'', ''KELP''} \<and>
         process_order s product ord od ts = Inl KeyError"
proof -
  have d: "dom (current_positions s) = {''RAINFOREST_RESIN'', ''KELP''}"
    using run_backtest_dom [OF assms(1)] init_backtester_dom by simp
  then have "product \<notin> dom (current_positions s)"
    using assms(2,3) by simp
  then have "current_positions s product = None"
    by (simp add: domIff)
  from process_order_untracked [OF this assms(4)]
  have "process_order s product ord od ts = Inl KeyError" .
  with d init_backtester_dom show ?thesis by blast
qed

theorem untracked_product_raises_witness:
  "run_backtest scripted_trader
       (init_backtester, [[(''KELP'', [\<lparr>symbol = ''KELP'', price = 101, quantity = 8\<rparr>])]])
       [(0, [(''KELP'', \<lparr>buy_orders = [(99, 10)], sell_orders = [(101, 5)]\<rparr>)])] =
     Inr (\<lparr>current_positions = [''RAINFOREST_RESIN'' \<mapsto> 0, ''KELP'' \<mapsto> 5],
           pnl = - 505,
           trade_history = [\<lparr>t_timestamp = 0, t_product = ''KELP'', t_price = 101,
                              t_quantity = 5, t_side = ''buy''\<rparr>],
           results = [\<lparr>r_timestamp = 0, r_pnl = 0, r_resin_position = 0,
                       r_kelp_position = 5, r_total_volume = 5\<rparr>]\<rparr>, []) \<and>
   process_order
       \<lparr>current_positions = [''RAINFOREST_RESIN'' \<mapsto> 0, ''KELP'' \<mapsto> 5],
         pnl = - 505,
         trade_history = [\<lparr>t_timestamp = 0, t_product = ''KELP'', t_price = 101,
                            t_quantity = 5, t_side = ''buy''\<rparr>],
         results = [\<lparr>r_timestamp = 0, r_pnl = 0, r_resin_position = 0,
                      r_kelp_position = 5, r_total_volume = 5\<rparr>]\<rparr>
       ''SQUID_INK'' \<lparr>symbol = ''SQUID_INK'', price = 2000, quantity = 3\<rparr>
       \<lparr>buy_orders = [(1995, 20)], sell_orders = [(1998, 7)]\<rparr> 100 = Inl KeyError"
proof -
  let ?s = "\<lparr>current_positions = [''RAINFOREST_RESIN'' \<mapsto> 0, ''KELP'' \<mapsto> 5],
         pnl = - 505,
         trade_history = [\<lparr>t_timestamp = 0, t_product = ''KELP'', t_price = 101,
                            t_quantity = 5, t_side = ''buy''\<rparr>],
         results = [\<lparr>r_timestamp = 0, r_pnl = 0, r_resin_position = 0,
                      r_kelp_position = 5, r_total_volume = 5\<rparr>]\<rparr>"
  have run: "run_backtest scripted_trader
       (init_backtester, [[(''KELP'', [\<lparr>symbol = ''KELP'', price = 101, quantity = 8\<rparr>])]])
       [(0, [(''KELP'', \<lparr>buy_orders = [(99, 10)], sell_orders = [(101, 5)]\<rparr>)])] = Inr (?s, [])"
  proof -
    have po: "process_order init_backtester ''KELP''
           \<lparr>symbol = ''KELP'', price = 101, quantity = 8\<rparr>
           \<lparr>buy_orders = [(99, 10)], sell_orders = [(101, 5)]\<rparr> 0 =
         Inr \<lparr>current_positions = [''RAINFOREST_RESIN'' \<mapsto> 0, ''KELP'' \<mapsto> 5],
              pnl = - 505,
              trade_history = [\<lparr>t_timestamp = 0, t_product = ''KELP'', t_price = 101,
                                 t_quantity = 5, t_side = ''buy''\<rparr>],
              results = []\<rparr>"
      by (simp add: process_order_def dict_get_def record_trade_def init_backtester_def)
    have "run_tick scripted_trader
         (init_backtester, [[(''KELP'', [\<lparr>symbol = ''KELP'', price = 101, quantity = 8\<rparr>])]])
         (0, [(''KELP'', \<lparr>buy_orders = [(99, 10)], sell_orders = [(101, 5)]\<rparr>)]) = Inr (?s, [])"
      by (simp add: run_tick_def scripted_trader_def dict_get_def po)
         (simp add: init_backtester_def)
    then show ?thesis by simp
  qed
  have cross: "(quantity \<lparr>symbol = ''SQUID_INK'', price = 2000, quantity = 3\<rparr> > 0 \<and>
      sell_orders \<lparr>buy_orders = [(1995, 20)], sell_orders = [(1998, 7)]\<rparr> \<noteq> [] \<and>
      price \<lparr>symbol = ''SQUID_INK'', price = 2000, quantity = 3\<rparr>
        \<ge> best_ask \<lparr>buy_orders = [(1995, 20)], sell_orders = [(1998, 7)]\<rparr>) \<or>
     (quantity \<lparr>symbol = ''SQUID_INK'', price = 2000, quantity = 3\<rparr> \<le> 0 \<and>
      buy_orders \<lparr>buy_orders = [(1995, 20)], sell_orders = [(1998, 7)]\<rparr> \<noteq> [] \<and>
      price \<lparr>symbol = ''SQUID_INK'', price = 2000, quantity = 3\<rparr>
        \<le> best_bid \<lparr>buy_orders = [(1995, 20)], sell_orders = [(1998, 7)]\<rparr>)"
    by (simp add: best_ask_def)
  have ne: "''SQUID_INK'' \<noteq> ''RAINFOREST_RESIN''" "''SQUID_INK'' \<noteq> ''KELP''"
    by simp_all
  from untracked_product_raises [OF run ne cross, of 100] run
  show ?thesis by simp
qed

section \<open>Position limits in the replay engine\<close>

lemma dict_get_nonneg:
  "list_all (\<lambda>kv. 0 \<le> snd kv) d \<Longrightarrow> dict_get d k = Inr (v::int) \<Longrightarrow> 0 \<le> v"
  by (auto simp: dict_get_def list_all_iff split: option.splits dest!: map_of_SomeD)

lemma process_order_position:
  assumes run: "process_order s product ord od ts = Inr s'"
    and pos: "current_positions s product = Some p"
    and vol: "volumes_nonneg od"
  shows "\<exists>p'. current_positions s' = (current_positions s)(product \<mapsto> p') \<and>
           p - (if quantity ord > 0 then 0 else \<bar>quantity ord\<bar>) \<le> p' \<and>
           p' \<le> p + (if quantity ord > 0 then quantity ord else 0)"
proof (cases "quantity ord > 0")
  case True
  show ?thesis
  proof (cases "py_min (map fst (sell_orders od))")
    case (Inl e)
    with run True show ?thesis by (simp add: process_order_def)
  next
    case (Inr ba)
    show ?thesis
    proof (cases "price ord \<ge> ba")
      case False
      with run True Inr pos show ?thesis
        by (auto simp: process_order_def intro!: exI [of _ p])
    next
      case cross: True
      then obtain v where v: "dict_get (sell_orders od) ba = Inr v"
        and rt: "record_trade s product ba (min (quantity ord) v) ''buy'' ts = Inr s'"
        using run True Inr by (auto simp: process_order_def split: sum.splits)
      have "0 \<le> v" using vol v by (auto simp: volumes_nonneg_def dest: dict_get_nonneg)
      with record_trade_position [OF rt] pos True show ?thesis
        by (auto intro!: exI [of _ "p + min (quantity ord) v"])
    qed
  qed
next
  case False
  show ?thesis
  proof (cases "py_max (map fst (buy_orders od))")
    case (Inl e)
    with run False show ?thesis by (simp add: process_order_def)
  next
    case (Inr bb)
    show ?thesis
    proof (cases "price ord \<le> bb")
      case nocross: False
      with run False Inr pos show ?thesis
        by (auto simp: process_order_def intro!: exI [of _ p])
    next
      case cross: True
      then obtain v where v: "dict_get (buy_orders od) bb = Inr v"
        and rt: "record_trade s product bb (min \<bar>quantity ord\<bar> v) ''sell'' ts = Inr s'"
        using run False Inr by (auto simp: process_order_def split: sum.splits)
      have "0 \<le> v" using vol v by (auto simp: volumes_nonneg_def dest: dict_get_nonneg)
      with record_trade_position [OF rt] pos False show ?thesis
        by (auto intro!: exI [of _ "p - min \<bar>quantity ord\<bar> v"])
    qed
  qed
qed

lemma process_orders_position:
  assumes "process_orders s product os order_depths ts = Inr s'"
    and "current_positions s product = Some p"
    and "\<And>od. map_of order_depths product = Some od \<Longrightarrow> volumes_nonneg od"
  shows "\<exists>p'. current_positions s' = (current_positions s)(product \<mapsto> p') \<and>
           p - sell_total os \<le> p' \<and> p' \<le> p + buy_total os"
  using assms
proof (induction os arbitrary: s p)
  case Nil
  then show ?case by (auto simp: buy_total_def sell_total_def intro!: exI [of _ p])
next
  case (Cons ord rest)
  from Cons.prems(1) obtain od s1 where od: "dict_get order_depths product = Inr od"
    and s1: "process_order s product ord od ts = Inr s1"
    and rest: "process_orders s1 product rest order_depths ts = Inr s'"
    by (auto split: sum.splits)
  have vn: "volumes_nonneg od"
    using od Cons.prems(3) by (auto simp: dict_get_def split: option.splits)
  from process_order_position [OF s1 Cons.prems(2) vn]
  obtain p1 where p1: "current_positions s1 = (current_positions s)(product \<mapsto> p1)"
    and lo: "p - (if quantity ord > 0 then 0 else \<bar>quantity ord\<bar>) \<le> p1"
    and hi: "p1 \<le> p + (if quantity ord > 0 then quantity ord else 0)"
    by blast
  have "current_positions s1 product = Some p1" using p1 by simp
  from Cons.IH [OF rest this Cons.prems(3)]
  obtain p' where p': "current_positions s' = (current_positions s1)(product \<mapsto> p')"
    and lo': "p1 - sell_total rest \<le> p'" and hi': "p' \<le> p1 + buy_total rest"
    by blast
  have "current_positions s' = (current_positions s)(product \<mapsto> p')"
    using p' p1 by simp
  moreover have "p - sell_total (ord # rest) \<le> p'"
    using lo lo' by (auto simp: sell_total_def split: if_splits)
  moreover have "p' \<le> p + buy_total (ord # rest)"
    using hi hi' by (auto simp: buy_total_def split: if_splits)
  ultimately show ?case by blast
qed

lemma process_order_other:
  assumes "process_order s q ord od ts = Inr s'" and "x \<noteq> q"
  shows "current_positions s' x = current_positions s x"
  using assms
  by (auto simp: process_order_def record_trade_def split: if_splits sum.splits option.splits)

lemma process_orders_other:
  assumes "process_orders s q os order_depths ts = Inr s'" and "x \<noteq> q"
  shows "current_positions s' x = current_positions s x"
  using assms
proof (induction os arbitrary: s)
  case Nil
  then show ?case by simp
next
  case (Cons ord rest)
  from Cons.prems(1) obtain od s1 where
    s1: "process_order s q ord od ts = Inr s1"
    and rest: "process_orders s1 q rest order_depths ts = Inr s'"
    by (auto split: sum.splits)
  from Cons.IH [OF rest Cons.prems(2)] process_order_other [OF s1 Cons.prems(2)]
  show ?case by simp
qed

lemma process_result_position:
  assumes "process_result s result order_depths ts = Inr s'"
    and "distinct (map fst result)"
    and "current_positions s product = Some p"
    and "\<And>od. map_of order_depths product = Some od \<Longrightarrow> volumes_nonneg od"
  shows "\<exists>p'. current_positions s' product = Some p' \<and>
           p - sell_total (orders_for result product) \<le> p' \<and>
           p' \<le> p + buy_total (orders_for result product)"
  using assms
proof (induction result arbitrary: s p)
  case Nil
  then show ?case by (simp add: orders_for_def buy_total_def sell_total_def)
next
  case (Cons entry rest)
  obtain q os where entry: "entry = (q, os)" by (cases entry)
  from Cons.prems(1) entry obtain s1 where
    s1: "process_orders s q os order_depths ts = Inr s1"
    and r: "process_result s1 rest order_depths ts = Inr s'"
    by (auto split: sum.splits)
  have d: "distinct (map fst rest)" using Cons.prems(2) by simp
  show ?case
  proof (cases "q = product")
    case True
    from process_orders_position [OF s1 [unfolded True] Cons.prems(3) Cons.prems(4)]
    obtain p1 where p1: "current_positions s1 product = Some p1"
      and lo: "p - sell_total os \<le> p1" and hi: "p1 \<le> p + buy_total os"
      by auto
    have "product \<notin> fst ` set rest"
      using Cons.prems(2) entry True by auto
    then have none: "map_of rest product = None"
      by (simp add: map_of_eq_None_iff)
    from Cons.IH [OF r d p1 Cons.prems(4)] none
    obtain p' where "current_positions s' product = Some p'" and "p' = p1"
      by (auto simp: orders_for_def buy_total_def sell_total_def)
    then show ?thesis
      using lo hi entry True by (simp add: orders_for_def)
  next
    case False
    have "current_positions s1 product = Some p"
      using process_orders_other [OF s1, of product] False Cons.prems(3) by simp
    from Cons.IH [OF r d this Cons.prems(4)]
    show ?thesis using entry False by (simp add: orders_for_def)
  qed
qed

text \<open>
  C2, as stated, fails: the engine applies every fill without looking at any limit. From
  a fresh engine, one tick in which the trader returns a buy of 100 KELP at 101 against
  an ask of 101 with volume 100 leaves the KELP position at 100, above the limit of 50.
\<close>

theorem position_limit_counterexample:
  "process_result init_backtester
       [(''KELP'', [\<lparr>symbol = ''KELP'', price = 101, quantity = 100\<rparr>])]
       [(''KELP'', \<lparr>buy_orders = [(99, 10)], sell_orders = [(101, 100)]\<rparr>)] 0 =
     Inr \<lparr>current_positions = [''RAINFOREST_RESIN'' \<mapsto> 0, ''KELP'' \<mapsto> 100],
          pnl = - 10100,
          trade_history = [\<lparr>t_timestamp = 0, t_product = ''KELP'', t_price = 101,
                             t_quantity = 100, t_side = ''buy''\<rparr>],
          results = []\<rparr> \<and>
   \<not> ((100::int) \<le> 50)"
proof -
  have "process_order init_backtester ''KELP'' \<lparr>symbol = ''KELP'', price = 101, quantity = 100\<rparr>
         \<lparr>buy_orders = [(99, 10)], sell_orders = [(101, 100)]\<rparr> 0 =
       Inr \<lparr>current_positions = [''RAINFOREST_RESIN'' \<mapsto> 0, ''KELP'' \<mapsto> 100],
            pnl = - 10100,
            trade_history = [\<lparr>t_timestamp = 0, t_product = ''KELP'', t_price = 101,
                               t_quantity = 100, t_side = ''buy''\<rparr>],
            results = []\<rparr>"
    by (simp add: process_order_def dict_get_def record_trade_def init_backtester_def)
  then show ?thesis
    by (simp add: dict_get_def)
qed

text \<open>
  C2, amended. The engine itself enforces no limit, but it keeps one that the orders
  respect: if the books hold non-negative volumes and, for a product, the buy quantities
  of the tick's orders sum to at most limit - position and the sell quantities to at
  most limit + position, then after all of the tick's fills the position of that product
  lies between -limit and limit.
\<close>

theorem position_limit_preserved:
  assumes "process_result s result order_depths ts = Inr s'"
    and "distinct (map fst result)"
    and "current_positions s product = Some p"
    and "\<forall>od. map_of order_depths product = Some od \<longrightarrow> volumes_nonneg od"
    and "buy_total (orders_for result product) \<le> limit - p"
    and "sell_total (orders_for result product) \<le> limit + p"
  shows "\<exists>p'. current_positions s' product = Some p' \<and> - limit \<le> p' \<and> p' \<le> limit"
proof -
  have vn: "\<And>od. map_of order_depths product = Some od \<Longrightarrow> volumes_nonneg od"
    using assms(4) by blast
  from process_result_position [OF assms(1) assms(2) assms(3) vn]
  obtain p' where "current_positions s' product = Some p'"
    and "p - sell_total (orders_for result product) \<le> p'"
    and "p' \<le> p + buy_total (orders_for result product)"
    by blast
  then show ?thesis
    using assms(5,6) by (intro exI [of _ p']) simp
qed

theorem position_limit_preserved_witness:
  "process_result init_backtester
       [(''KELP'', [\<lparr>symbol = ''KELP'', price = 101, quantity = 8\<rparr>,
                    \<lparr>symbol = ''KELP'', price = 99, quantity = - 3\<rparr>])]
       [(''KELP'', \<lparr>buy_orders = [(99, 10)], sell_orders = [(101, 5)]\<rparr>)] 0 =
     Inr \<lparr>current_positions = [''RAINFOREST_RESIN'' \<mapsto> 0, ''KELP'' \<mapsto> 2],
          pnl = - 208,
          trade_history = [\<lparr>t_timestamp = 0, t_product = ''KELP'', t_price = 101,
                             t_quantity = 5, t_side = ''buy''\<rparr>,
                           \<lparr>t_timestamp = 0, t_product = ''KELP'', t_price = 99,
                             t_quantity = 3, t_side = ''sell''\<rparr>],
          results = []\<rparr> \<and>
   volumes_nonneg \<lparr>buy_orders = [(99, 10)], sell_orders = [(101, 5)]\<rparr> \<and>
   buy_total [\<lparr>symbol = ''KELP'', price = 101, quantity = 8\<rparr>,
              \<lparr>symbol = ''KELP'', price = 99, quantity = - 3\<rparr>] = 8 \<and>
   sell_total [\<lparr>symbol = ''KELP'', price = 101, quantity = 8\<rparr>,
               \<lparr>symbol = ''KELP'', price = 99, quantity = - 3\<rparr>] = 3 \<and>
   (\<exists>p'. [''RAINFOREST_RESIN'' \<mapsto> 0, ''KELP'' \<mapsto> (2::int)] ''KELP'' = Some p' \<and>
         - 50 \<le> p' \<and> p' \<le> 50)"
proof -
  let ?o1 = "\<lparr>symbol = ''KELP'', price = 101, quantity = 8\<rparr>"
  let ?o2 = "\<lparr>symbol = ''KELP'', price = 99, quantity = - 3\<rparr>"
  let ?od = "\<lparr>buy_orders = [(99, 10)], sell_orders = [(101, 5)]\<rparr>"
  let ?s1 = "\<lparr>current_positions = [''RAINFOREST_RESIN'' \<mapsto> 0, ''KELP'' \<mapsto> 5],
          pnl = - 505,
          trade_history = [\<lparr>t_timestamp = 0, t_product = ''KELP'', t_price = 101,
                             t_quantity = 5, t_side = ''buy''\<rparr>],
          results = []\<rparr>"
  let ?s2 = "\<lparr>current_positions = [''RAINFOREST_RESIN'' \<mapsto> 0, ''KELP'' \<mapsto> 2],
          pnl = - 208,
          trade_history = [\<lparr>t_timestamp = 0, t_product = ''KELP'', t_price = 101,
                             t_quantity = 5, t_side = ''buy''\<rparr>,
                           \<lparr>t_timestamp = 0, t_product = ''KELP'', t_price = 99,
                             t_quantity = 3, t_side = ''sell''\<rparr>],
          results = []\<rparr>"
  have po1: "process_order init_backtester ''KELP'' ?o1 ?od 0 = Inr ?s1"
    by (simp add: process_order_def dict_get_def record_trade_def init_backtester_def)
  have po2: "process_order ?s1 ''KELP'' ?o2 ?od 0 = Inr ?s2"
    by (simp add: process_order_def dict_get_def record_trade_def)
  have run: "process_result init_backtester [(''KELP'', [?o1, ?o2])] [(''KELP'', ?od)] 0 = Inr ?s2"
    by (simp add: dict_get_def po1 po2)
  have dist: "distinct (map fst [(''KELP'', [?o1, ?o2])])" by simp
  have pos: "current_positions init_backtester ''KELP'' = Some 0"
    by (simp add: init_backtester_def)
  have vol: "volumes_nonneg ?od" by (simp add: volumes_nonneg_def)
  have vols: "\<forall>od. map_of [(''KELP'', ?od)] ''KELP'' = Some od \<longrightarrow> volumes_nonneg od"
    using vol by simp
  have bt: "buy_total [?o1, ?o2] = 8" by (simp add: buy_total_def)
  have st: "sell_total [?o1, ?o2] = 3" by (simp add: sell_total_def)
  have b: "buy_total (orders_for [(''KELP'', [?o1, ?o2])] ''KELP'') \<le> 50 - 0"
    by (simp add: orders_for_def bt)
  have c: "sell_total (orders_for [(''KELP'', [?o1, ?o2])] ''KELP'') \<le> 50 + 0"
    by (simp add: orders_for_def st)
  from position_limit_preserved [OF run dist pos vols b c]
  have "\<exists>p'. current_positions ?s2 ''KELP'' = Some p' \<and> - 50 \<le> p' \<and> p' \<le> 50" .
  then have "\<exists>p'. [''RAINFOREST_RESIN'' \<mapsto> 0, ''KELP'' \<mapsto> (2::int)] ''KELP'' = Some p' \<and>
         - 50 \<le> p' \<and> p' \<le> 50"
    by simp
  with run vol bt st show ?thesis by blast
qed

section \<open>Capacity used by the fixed fair-value policies\<close>

lemma resin_take_buy_ok:
  "\<exists>os v. resin_take_buy product od fv w pos L = Inr (os, v) \<and> buy_total os = v \<and> sell_total os = 0
       \<and> 0 \<le> v \<and> (v > 0 \<longrightarrow> v \<le> L - pos)"
proof (cases "sell_orders od = []")
  case True
  then show ?thesis by (simp add: resin_take_buy_def buy_total_def sell_total_def)
next
  case False
  obtain vol where v: "map_of (sell_orders od) (Min (fst ` set (sell_orders od))) = Some vol"
    using Min_key_present [OF False] by blast
  show ?thesis
    using False v py_min_keys [OF False]
    by (simp add: resin_take_buy_def dict_get_def Let_def buy_total_def sell_total_def)
qed

lemma resin_take_sell_ok:
  "\<exists>os v. resin_take_sell product od fv w pos L = Inr (os, v) \<and> sell_total os = v \<and> buy_total os = 0
       \<and> 0 \<le> v \<and> (v > 0 \<longrightarrow> v \<le> L + pos)"
proof (cases "buy_orders od = []")
  case True
  then show ?thesis by (simp add: resin_take_sell_def buy_total_def sell_total_def)
next
  case False
  obtain vol where v: "map_of (buy_orders od) (Max (fst ` set (buy_orders od))) = Some vol"
    using Max_key_present [OF False] by blast
  show ?thesis
    using False v py_max_keys [OF False]
    by (auto simp: resin_take_sell_def dict_get_def Let_def buy_total_def sell_total_def)
qed

lemma buy_total_append: "buy_total (xs @ ys) = buy_total xs + buy_total ys"
  by (simp add: buy_total_def)

lemma sell_total_append: "sell_total (xs @ ys) = sell_total xs + sell_total ys"
  by (simp add: sell_total_def)

lemma resin_strategy_capacity:
  assumes "- L \<le> pos" and "pos \<le> L"
  shows "\<exists>os. resin_strategy product od fv w pos L = Inr os \<and>
           buy_total os \<le> L - pos \<and> sell_total os \<le> L + pos"
proof -
  obtain bs bv where b: "resin_take_buy product od fv w pos L = Inr (bs, bv)"
    "buy_total bs = bv" "sell_total bs = 0" "0 \<le> bv" "bv > 0 \<longrightarrow> bv \<le> L - pos"
    using resin_take_buy_ok by blast
  obtain ss sv where s: "resin_take_sell product od fv w pos L = Inr (ss, sv)"
    "sell_total ss = sv" "buy_total ss = 0" "0 \<le> sv" "sv > 0 \<longrightarrow> sv \<le> L + pos"
    using resin_take_sell_ok by blast
  show ?thesis
    using b s assms
    by (auto simp: resin_strategy_def Let_def buy_total_append sell_total_append)
       (auto simp: buy_total_def sell_total_def)
qed

text \<open>
  C3. \<open>fixed_resin_strategy\<close> does not subtract what it takes from what it posts. With
  position 0, limit 50, fair value 10000, width 2 and the book bid 9990 (volume 5), ask
  9995 (volume 10), it buys 10 at the ask and still posts a bid for the full 50: the buy
  orders of the tick add up to 60, above limit - position = 50. \<open>resin_strategy\<close>, on
  the same input, posts the remaining 40.
\<close>

theorem fixed_resin_strategy_exceeds_capacity:
  "fixed_resin_strategy 0 ''RAINFOREST_RESIN''
       \<lparr>buy_orders = [(9990, 5)], sell_orders = [(9995, - 10)]\<rparr> 0 50 10000 2 =
     (1, Inr [\<lparr>symbol = ''RAINFOREST_RESIN'', price = 9995, quantity = 10\<rparr>,
              \<lparr>symbol = ''RAINFOREST_RESIN'', price = 9991, quantity = 50\<rparr>,
              \<lparr>symbol = ''RAINFOREST_RESIN'', price = 10002, quantity = - 50\<rparr>]) \<and>
   buy_total [\<lparr>symbol = ''RAINFOREST_RESIN'', price = 9995, quantity = 10\<rparr>,
              \<lparr>symbol = ''RAINFOREST_RESIN'', price = 9991, quantity = 50\<rparr>,
              \<lparr>symbol = ''RAINFOREST_RESIN'', price = 10002, quantity = - 50\<rparr>] = 60 \<and>
   \<not> ((60::int) \<le> 50 - 0) \<and>
   resin_strategy ''RAINFOREST_RESIN''
       \<lparr>buy_orders = [(9990, 5)], sell_orders = [(9995, - 10)]\<rparr> 10000 2 0 50 =
     Inr [\<lparr>symbol = ''RAINFOREST_RESIN'', price = 9995, quantity = 10\<rparr>,
          \<lparr>symbol = ''RAINFOREST_RESIN'', price = 9991, quantity = 40\<rparr>,
          \<lparr>symbol = ''RAINFOREST_RESIN'', price = 10002, quantity = - 50\<rparr>]"
proof -
  have a: "fixed_resin_strategy 0 ''RAINFOREST_RESIN''
       \<lparr>buy_orders = [(9990, 5)], sell_orders = [(9995, - 10)]\<rparr> 0 50 10000 2 =
     (1, Inr [\<lparr>symbol = ''RAINFOREST_RESIN'', price = 9995, quantity = 10\<rparr>,
              \<lparr>symbol = ''RAINFOREST_RESIN'', price = 9991, quantity = 50\<rparr>,
              \<lparr>symbol = ''RAINFOREST_RESIN'', price = 10002, quantity = - 50\<rparr>])"
    by (simp add: fixed_resin_strategy_def dict_get_def Let_def)
  have b: "buy_total [\<lparr>symbol = ''RAINFOREST_RESIN'', price = 9995, quantity = 10\<rparr>,
              \<lparr>symbol = ''RAINFOREST_RESIN'', price = 9991, quantity = 50\<rparr>,
              \<lparr>symbol = ''RAINFOREST_RESIN'', price = 10002, quantity = - 50\<rparr>] = 60"
    by (simp add: buy_total_def)
  have t1: "resin_take_buy ''RAINFOREST_RESIN''
       \<lparr>buy_orders = [(9990, 5)], sell_orders = [(9995, - 10)]\<rparr> 10000 2 0 50 =
     Inr ([\<lparr>symbol = ''RAINFOREST_RESIN'', price = 9995, quantity = 10\<rparr>], 10)"
    by (simp add: resin_take_buy_def dict_get_def Let_def)
  have t2: "resin_take_sell ''RAINFOREST_RESIN''
       \<lparr>buy_orders = [(9990, 5)], sell_orders = [(9995, - 10)]\<rparr> 10000 2 0 50 = Inr ([], 0)"
    by (simp add: resin_take_sell_def dict_get_def Let_def)
  have c: "resin_strategy ''RAINFOREST_RESIN''
       \<lparr>buy_orders = [(9990, 5)], sell_orders = [(9995, - 10)]\<rparr> 10000 2 0 50 =
     Inr [\<lparr>symbol = ''RAINFOREST_RESIN'', price = 9995, quantity = 10\<rparr>,
          \<lparr>symbol = ''RAINFOREST_RESIN'', price = 9991, quantity = 40\<rparr>,
          \<lparr>symbol = ''RAINFOREST_RESIN'', price = 10002, quantity = - 50\<rparr>]"
    by (simp add: resin_strategy_def t1 t2 Let_def)
  show ?thesis using a b c by simp
qed

section \<open>Exceptions inside the orchestrator\<close>

text \<open>
  What the single \<open>try\<close> block does when a policy raises: the exception is caught and
  logged and \<open>run\<close> returns, with the order lists of the products evaluated before the
  failing policy and the rolling state the failing policy left behind; nothing after the
  failing policy is evaluated.
\<close>

lemma run_stops_at_first_failure:
  fixes trade_resin trade_kelp trade_squid :: "'h policy"
    and trade_picnic_baskets :: "'h multi_policy"
  shows
    "(present ''RAINFOREST_RESIN'' \<and> trade_resin h = (Inl e, h1) \<longrightarrow>
        run_round_v_5 present trade_resin trade_kelp trade_squid h = ([], h1, [e]) \<and>
        run_round2_v_1 present trade_resin trade_kelp trade_squid trade_picnic_baskets h =
          ([], h1, [e])) \<and>
     ((if present ''RAINFOREST_RESIN'' then trade_resin h = (Inr os1, h1) else h1 = h) \<and>
      present ''KELP'' \<and> trade_kelp h1 = (Inl e, h2) \<longrightarrow>
        run_round_v_5 present trade_resin trade_kelp trade_squid h =
          ((if present ''RAINFOREST_RESIN'' then [(''RAINFOREST_RESIN'', os1)] else []),
           h2, [e]) \<and>
        run_round2_v_1 present trade_resin trade_kelp trade_squid trade_picnic_baskets h =
          ((if present ''RAINFOREST_RESIN'' then [(''RAINFOREST_RESIN'', os1)] else []),
           h2, [e])) \<and>
     ((if present ''RAINFOREST_RESIN'' then trade_resin h = (Inr os1, h1) else h1 = h) \<and>
      (if present ''KELP'' then trade_kelp h1 = (Inr os2, h2) else h2 = h1) \<and>
      present ''SQUID_INK'' \<and> trade_squid h2 = (Inl e, h3) \<longrightarrow>
        run_round_v_5 present trade_resin trade_kelp trade_squid h =
          ((if present ''RAINFOREST_RESIN'' then [(''RAINFOREST_RESIN'', os1)] else []) @
           (if present ''KELP'' then [(''KELP'', os2)] else []), h3, [e]) \<and>
        run_round2_v_1 present trade_resin trade_kelp trade_squid trade_picnic_baskets h =
          ((if present ''RAINFOREST_RESIN'' then [(''RAINFOREST_RESIN'', os1)] else []) @
           (if present ''KELP'' then [(''KELP'', os2)] else []), h3, [e])) \<and>
     ((if present ''RAINFOREST_RESIN'' then trade_resin h = (Inr os1, h1) else h1 = h) \<and>
      (if present ''KELP'' then trade_kelp h1 = (Inr os2, h2) else h2 = h1) \<and>
      (if present ''SQUID_INK'' then trade_squid h2 = (Inr os3, h3) else h3 = h2) \<and>
      trade_picnic_baskets h3 = (Inl e, h4) \<longrightarrow>
        run_round2_v_1 present trade_resin trade_kelp trade_squid trade_picnic_baskets h =
          ((if present ''RAINFOREST_RESIN'' then [(''RAINFOREST_RESIN'', os1)] else []) @
           (if present ''KELP'' then [(''KELP'', os2)] else []) @
           (if present ''SQUID_INK'' then [(''SQUID_INK'', os3)] else []), h4, [e]))"
proof (intro conjI impI)
  assume "present ''RAINFOREST_RESIN'' \<and> trade_resin h = (Inl e, h1)"
  then show "run_round_v_5 present trade_resin trade_kelp trade_squid h = ([], h1, [e])"
    and "run_round2_v_1 present trade_resin trade_kelp trade_squid trade_picnic_baskets h =
          ([], h1, [e])"
    by (simp_all add: run_round_v_5_def run_round2_v_1_def run_policy_def)
next
  assume a: "(if present ''RAINFOREST_RESIN'' then trade_resin h = (Inr os1, h1) else h1 = h) \<and>
      present ''KELP'' \<and> trade_kelp h1 = (Inl e, h2)"
  then have r: "run_policy (present ''RAINFOREST_RESIN'') ''RAINFOREST_RESIN'' trade_resin ([], h) =
      Inr ((if present ''RAINFOREST_RESIN'' then [(''RAINFOREST_RESIN'', os1)] else []), h1)"
    by (simp add: run_policy_def split: if_splits)
  have k: "run_policy (present ''KELP'') ''KELP'' trade_kelp
      ((if present ''RAINFOREST_RESIN'' then [(''RAINFOREST_RESIN'', os1)] else []), h1) =
      Inl (e, (if present ''RAINFOREST_RESIN'' then [(''RAINFOREST_RESIN'', os1)] else []), h2)"
    using a by (simp add: run_policy_def)
  show "run_round_v_5 present trade_resin trade_kelp trade_squid h =
          ((if present ''RAINFOREST_RESIN'' then [(''RAINFOREST_RESIN'', os1)] else []),
           h2, [e])"
    by (simp add: run_round_v_5_def r k)
  show "run_round2_v_1 present trade_resin trade_kelp trade_squid trade_picnic_baskets h =
          ((if present ''RAINFOREST_RESIN'' then [(''RAINFOREST_RESIN'', os1)] else []),
           h2, [e])"
    by (simp add: run_round2_v_1_def r k)
next
  assume a: "(if present ''RAINFOREST_RESIN'' then trade_resin h = (Inr os1, h1) else h1 = h) \<and>
      (if present ''KELP'' then trade_kelp h1 = (Inr os2, h2) else h2 = h1) \<and>
      present ''SQUID_INK'' \<and> trade_squid h2 = (Inl e, h3)"
  let ?r1 = "(if present ''RAINFOREST_RESIN'' then [(''RAINFOREST_RESIN'', os1)] else [])"
  let ?r2 = "?r1 @ (if present ''KELP'' then [(''KELP'', os2)] else [])"
  have r: "run_policy (present ''RAINFOREST_RESIN'') ''RAINFOREST_RESIN'' trade_resin ([], h) =
      Inr (?r1, h1)"
    using a by (simp add: run_policy_def split: if_splits)
  have k: "run_policy (present ''KELP'') ''KELP'' trade_kelp (?r1, h1) = Inr (?r2, h2)"
    using a by (simp add: run_policy_def split: if_splits)
  have q: "run_policy (present ''SQUID_INK'') ''SQUID_INK'' trade_squid (?r2, h2) =
      Inl (e, ?r2, h3)"
    using a by (simp add: run_policy_def)
  show "run_round_v_5 present trade_resin trade_kelp trade_squid h = (?r2, h3, [e])"
    by (simp only: run_round_v_5_def r k q sum.case prod.case)
  show "run_round2_v_1 present trade_resin trade_kelp trade_squid trade_picnic_baskets h =
      (?r2, h3, [e])"
    by (simp only: run_round2_v_1_def r k q sum.case prod.case)
next
  assume a: "(if present ''RAINFOREST_RESIN'' then trade_resin h = (Inr os1, h1) else h1 = h) \<and>
      (if present ''KELP'' then trade_kelp h1 = (Inr os2, h2) else h2 = h1) \<and>
      (if present ''SQUID_INK'' then trade_squid h2 = (Inr os3, h3) else h3 = h2) \<and>
      trade_picnic_baskets h3 = (Inl e, h4)"
  let ?r1 = "(if present ''RAINFOREST_RESIN'' then [(''RAINFOREST_RESIN'', os1)] else [])"
  let ?r2 = "?r1 @ (if present ''KELP'' then [(''KELP'', os2)] else [])"
  let ?r3 = "?r1 @ (if present ''KELP'' then [(''KELP'', os2)] else []) @
             (if present ''SQUID_INK'' then [(''SQUID_INK'', os3)] else [])"
  have r: "run_policy (present ''RAINFOREST_RESIN'') ''RAINFOREST_RESIN'' trade_resin ([], h) =
      Inr (?r1, h1)"
    using a by (simp add: run_policy_def split: if_splits)
  have k: "run_policy (present ''KELP'') ''KELP'' trade_kelp (?r1, h1) = Inr (?r2, h2)"
    using a by (simp add: run_policy_def split: if_splits)
  have q: "run_policy (present ''SQUID_INK'') ''SQUID_INK'' trade_squid (?r2, h2) =
      Inr (?r3, h3)"
    using a by (simp add: run_policy_def split: if_splits)
  have b: "run_multi_policy trade_picnic_baskets (?r3, h3) = Inl (e, ?r3, h4)"
    using a by (simp add: run_multi_policy_def)
  show "run_round2_v_1 present trade_resin trade_kelp trade_squid trade_picnic_baskets h =
      (?r3, h4, [e])"
    by (simp only: run_round2_v_1_def r k q b sum.case prod.case)
qed

text \<open>
  C5. The single \<open>try\<close> block does not isolate the products from each other. In a tick
  with a book for every product, when the KELP policy raises, \<open>run\<close> returns with the
  RAINFOREST_RESIN orders only: SQUID_INK, whose policy comes after, gets no entry and its
  rolling state is not advanced, and KELP itself gets no entry instead of an empty list.
  Without the failure the same tick yields an order for each of the three products. The
  same holds for the \<open>run\<close> with the basket policy last.
\<close>

theorem run_skips_products_after_failure:
  "run_round_v_5 all_present (quoting_policy ''RAINFOREST_RESIN'') raising_policy
       (quoting_policy ''SQUID_INK'') 0 =
     ([(''RAINFOREST_RESIN'', [\<lparr>symbol = ''RAINFOREST_RESIN'', price = 100, quantity = 1\<rparr>])],
      1, [OtherError]) \<and>
   run_round_v_5 all_present (quoting_policy ''RAINFOREST_RESIN'') (quoting_policy ''KELP'')
       (quoting_policy ''SQUID_INK'') 0 =
     ([(''RAINFOREST_RESIN'', [\<lparr>symbol = ''RAINFOREST_RESIN'', price = 100, quantity = 1\<rparr>]),
       (''KELP'', [\<lparr>symbol = ''KELP'', price = 100, quantity = 1\<rparr>]),
       (''SQUID_INK'', [\<lparr>symbol = ''SQUID_INK'', price = 100, quantity = 1\<rparr>])], 3, []) \<and>
   run_round2_v_1 all_present (quoting_policy ''RAINFOREST_RESIN'') raising_policy
       (quoting_policy ''SQUID_INK'') raising_baskets 0 =
     ([(''RAINFOREST_RESIN'', [\<lparr>symbol = ''RAINFOREST_RESIN'', price = 100, quantity = 1\<rparr>])],
      1, [OtherError])"
  by (simp add: run_round_v_5_def run_round2_v_1_def run_policy_def raising_policy_def
        quoting_policy_def all_present_def)

section \<open>The z-score guard\<close>

lemma component_zscore_guard:
  assumes "history \<noteq> []" and "window \<le> length history"
  shows "\<exists>mean std. py_mean history = Inr mean \<and> std_dev history mean = Inr std \<and>
     component_zscore window history mid =
       Some (Inr (if std > 0 then (mid - mean) / std else 0)) \<and>
     (std = 0 \<longrightarrow> component_zscore window history mid = Some (Inr 0))"
  using assms by (simp add: component_zscore_def py_mean_def std_dev_def)

text \<open>
  C6. The z-score of the basket spread is not guarded. With a spread window of 20 and a
  spread that has been 7 for twenty ticks in a row, the standard deviation is 0 and the
  division gives nan, not 0. (The component z-score of round2_v_2.py is guarded, see
  \<open>component_zscore_guard\<close>.)
\<close>

theorem spread_zscore_unguarded:
  "spread_zscore 20 [7, 7, 7, 7, 7, 7, 7, 7, 7, 7, 7, 7, 7, 7, 7, 7, 7, 7, 7] 7 =
     ([7, 7, 7, 7, 7, 7, 7, 7, 7, 7, 7, 7, 7, 7, 7, 7, 7, 7, 7, 7], Some NaN) \<and>
   np_std [7, 7, 7, 7, 7, 7, 7, 7, 7, 7, 7, 7, 7, 7, 7, 7, 7, 7, 7, 7] = Num 0 \<and>
   NaN \<noteq> Num 0"
  by (simp add: spread_zscore_def window_push_def np_mean_def np_std_def np_true_divide_def)

section \<open>Rolling windows are bounded and first-in first-out\<close>

lemma window_push_drop:
  "length h \<le> N \<Longrightarrow> window_push N h x = drop (length (h @ [x]) - N) (h @ [x])"
  by (cases "length h = N") (auto simp: window_push_def Let_def drop_Suc Suc_diff_le tl_append split: list.splits)

lemma window_push_length: "length h \<le> N \<Longrightarrow> length (window_push N h x) \<le> N"
  by (auto simp: window_push_def Let_def)

lemma drop_window_step:
  "drop (length (drop (length ys - N) ys @ [x]) - N) (drop (length ys - N) ys @ [x]) =
     drop (length (ys @ [x]) - N) (ys @ [x])"
proof -
  let ?k = "length ys - N"
  have a: "drop ?k ys @ [x] = drop ?k (ys @ [x])" by simp
  have b: "length (drop ?k (ys @ [x])) - N + ?k = length (ys @ [x]) - N"
    by (simp add: Suc_diff_le)
  show ?thesis
    unfolding a drop_drop b ..
qed

lemma foldl_window_push:
  "length h \<le> N \<Longrightarrow>
     foldl (window_push N) h xs = drop (length (h @ xs) - N) (h @ xs)"
proof (induction xs rule: rev_induct)
  case Nil
  then show ?case by simp
next
  case (snoc x xs)
  let ?w = "drop (length (h @ xs) - N) (h @ xs)"
  have w: "foldl (window_push N) h xs = ?w" using snoc by simp
  have len: "length ?w \<le> N" by simp
  have "foldl (window_push N) h (xs @ [x]) = window_push N ?w x"
    using w by simp
  also have "\<dots> = drop (length (?w @ [x]) - N) (?w @ [x])"
    using window_push_drop [OF len] .
  also have "\<dots> = drop (length ((h @ xs) @ [x]) - N) ((h @ xs) @ [x])"
    by (rule drop_window_step)
  finally show ?case by simp
qed

lemma kelp_vwap_push_nonempty:
  "h \<noteq> [] \<Longrightarrow> kelp_vwap_push N h x = window_push N h x"
  by (simp add: kelp_vwap_push_def window_push_def Let_def)

lemma window_push_nonempty: "1 \<le> N \<Longrightarrow> h \<noteq> [] \<Longrightarrow> window_push N h x \<noteq> []"
  by (cases h) (auto simp: window_push_def Let_def)

lemma foldl_kelp_nonempty:
  "1 \<le> N \<Longrightarrow> h \<noteq> [] \<Longrightarrow> foldl (kelp_vwap_push N) h xs = foldl (window_push N) h xs"
proof (induction xs arbitrary: h)
  case Nil
  then show ?case by simp
next
  case (Cons x xs)
  then show ?case
    by (simp add: kelp_vwap_push_nonempty window_push_nonempty)
qed

lemma kelp_first: "1 \<le> N \<Longrightarrow> kelp_vwap_push N [] x = (if N = 1 then [x] else [x, x])"
  by (auto simp: kelp_vwap_push_def Let_def)

lemma foldl_kelp_vwap_push:
  assumes "1 \<le> N"
  shows "length (foldl (kelp_vwap_push N) [] xs) \<le> N \<and>
         (N \<le> length xs \<longrightarrow> foldl (kelp_vwap_push N) [] xs = drop (length xs - N) xs)"
proof (cases xs)
  case Nil
  with assms show ?thesis by simp
next
  case (Cons x rest)
  let ?h = "if N = 1 then [x] else [x, x]"
  have ne: "?h \<noteq> []" by simp
  have le: "length ?h \<le> N" using assms by auto
  have "foldl (kelp_vwap_push N) [] xs = foldl (window_push N) ?h rest"
    using Cons foldl_kelp_nonempty [OF assms ne, of rest] kelp_first [OF assms, of x] by simp
  then have eq: "foldl (kelp_vwap_push N) [] xs = drop (length (?h @ rest) - N) (?h @ rest)"
    using foldl_window_push [OF le, of rest] by simp
  have "length (foldl (kelp_vwap_push N) [] xs) \<le> N"
    unfolding eq by simp
  moreover have "N \<le> length xs \<longrightarrow> drop (length (?h @ rest) - N) (?h @ rest) = drop (length xs - N) xs"
  proof (cases "N = 1")
    case True
    then show ?thesis using Cons by simp
  next
    case False
    show ?thesis
    proof
      assume "N \<le> length xs"
      then have "length (?h @ rest) - N = Suc (length xs - N)"
        using False Cons by simp
      then show "drop (length (?h @ rest) - N) (?h @ rest) = drop (length xs - N) xs"
        using False Cons by simp
    qed
  qed
  ultimately show ?thesis using eq by simp
qed

text \<open>
  C7. A window that holds at most N samples holds at most N after an update. Starting
  from the empty window, after any sequence of updates the window is the last N samples
  pushed, in arrival order (all of them while fewer than N have arrived), so it never
  exceeds N; pushing 1, ..., 25 into a window of capacity 20 leaves 6, ..., 25. The
  window of \<open>kelp_strategy\<close>, which seeds an empty window with a second copy of the first
  sample, satisfies the same bound for every capacity of at least 1 and also equals the
  last N samples once N have arrived.
\<close>

theorem rolling_window_fifo:
  "(length h \<le> N \<longrightarrow> length (window_push N h x) \<le> N) \<and>
   foldl (window_push N) [] xs = drop (length xs - N) xs \<and>
   length (foldl (window_push N) [] xs) \<le> N \<and>
   foldl (window_push 20) [] [1..25] = [6..25] \<and>
   (1 \<le> N \<longrightarrow>
      length (foldl (kelp_vwap_push N) [] xs) \<le> N \<and>
      (N \<le> length xs \<longrightarrow> foldl (kelp_vwap_push N) [] xs = drop (length xs - N) xs)) \<and>
   foldl (kelp_vwap_push 20) [] [1..25] = [6..25]"
proof -
  have a: "foldl (window_push N) [] xs = drop (length xs - N) xs"
    using foldl_window_push [of "[]" N xs] by simp
  have b: "length (foldl (window_push N) [] xs) \<le> N"
    unfolding a by simp
  have c: "foldl (window_push 20) [] [1..25] = [6..25]"
    by code_simp
  have d: "foldl (kelp_vwap_push 20) [] [1..25] = [6..25]"
    by code_simp
  show ?thesis
    using a b c d window_push_length [of h N x] foldl_kelp_vwap_push [of N xs] by blast
qed

theorem rolling_window_fifo_witness:
  "length [1, 2 :: int] \<le> 2 \<and> window_push 2 [1, 2 :: int] 3 = [2, 3] \<and>
   (1::nat) \<le> 2 \<and> 2 \<le> length [1, 2, 3 :: int] \<and>
   foldl (kelp_vwap_push 2) [] [1, 2, 3 :: int] = [2, 3] \<and>
   foldl (kelp_vwap_push 2) [] [1 :: int] = [1, 1] \<and>
   length (window_push 2 [1, 2 :: int] 3) \<le> 2 \<and>
   length (foldl (kelp_vwap_push 2) [] [1, 2, 3 :: int]) \<le> 2"
proof -
  have e: "window_push 2 [1, 2 :: int] 3 = [2, 3]"
    by (simp add: window_push_def)
  have f: "foldl (kelp_vwap_push 2) [] [1 :: int] = [1, 1]"
    by (simp add: kelp_vwap_push_def)
  from rolling_window_fifo [of "[1, 2 :: int]" 2 3 "[1, 2, 3 :: int]"]
  have "length (window_push 2 [1, 2 :: int] 3) \<le> 2 \<and>
        length (foldl (kelp_vwap_push 2) [] [1, 2, 3 :: int]) \<le> 2 \<and>
        foldl (kelp_vwap_push 2) [] [1, 2, 3 :: int] = drop (length [1, 2, 3 :: int] - 2) [1, 2, 3]"
    by simp
  then show ?thesis using e f by simp
qed

section \<open>The mid price\<close>

lemma get_mid_price_sides:
  "(buy_orders od = [] \<and> sell_orders od = [] \<longrightarrow> get_mid_price od = 0) \<and>
   (buy_orders od \<noteq> [] \<and> sell_orders od = [] \<longrightarrow> get_mid_price od = of_int (best_bid od)) \<and>
   (buy_orders od = [] \<and> sell_orders od \<noteq> [] \<longrightarrow> get_mid_price od = of_int (best_ask od)) \<and>
   (buy_orders od \<noteq> [] \<and> sell_orders od \<noteq> [] \<longrightarrow>
      get_mid_price od = (of_int (best_bid od) + of_int (best_ask od)) / 2)"
proof -
  have a: "sell_orders od \<noteq> [] \<Longrightarrow>
      (case map fst (sell_orders od) of [] \<Rightarrow> None | k # ks \<Rightarrow> Some (fold min ks k)) = Some (best_ask od)"
    using py_min_keys [of "sell_orders od"]
    by (cases "sell_orders od") (auto simp: best_ask_def simp del: set_simps list.set)
  have b: "buy_orders od \<noteq> [] \<Longrightarrow>
      (case map fst (buy_orders od) of [] \<Rightarrow> None | k # ks \<Rightarrow> Some (fold max ks k)) = Some (best_bid od)"
    using py_max_keys [of "buy_orders od"]
    by (cases "buy_orders od") (auto simp: best_bid_def simp del: set_simps list.set)
  show ?thesis
    using a b by (auto simp: get_mid_price_def)
qed

text \<open>
  C8. \<open>get_mid_price\<close> takes no default and carries nothing from one tick to the next.
  After a tick in which the book has bid 4320 and ask 4322, where it returns the mid
  price 4321, an empty book makes it return 0, not the carried 4321. (On a one-sided book
  it returns the side that exists and on a two-sided book the mean, see
  \<open>get_mid_price_sides\<close>.)
\<close>

theorem get_mid_price_empty_book_zero:
  "get_mid_price \<lparr>buy_orders = [(4320, 10)], sell_orders = [(4322, 5)]\<rparr> = 4321 \<and>
   get_mid_price \<lparr>buy_orders = [], sell_orders = []\<rparr> = 0 \<and>
   (0::real) \<noteq> 4321"
  by (simp add: get_mid_price_def)

end
